theory Spec2Isabelle
  imports Main "HOL-Library.Sublist" "HOL-Library.Word"
begin

section \<open>The utility module \<open>velocitas_lib\<close>\<close>

text \<open>
  A shallow embedding of \<^verbatim>\<open>src/velocitas_lib/__init__.py\<close>.

  A Python \<^verbatim>\<open>str\<close> is a sequence of code points; it is modelled as a \<^typ>\<open>string\<close>,
  a \<^typ>\<open>char\<close> standing for a code point below 256, and for the case conversion as a
  list of 7-bit characters. \<^verbatim>\<open>len\<close> is \<^const>\<open>length\<close>.
  A Python \<^verbatim>\<open>int\<close> is an \<^typ>\<open>int\<close>. A function that can raise returns
  \<open>py_error + 'a\<close>, with \<open>Inl\<close> for the exception.
\<close>

subsection \<open>Exceptions\<close>

text \<open>
  The exceptions the module raises itself or lets through from the library calls it makes.
  \<^item> \<open>EnvNotSet name\<close> is \<^verbatim>\<open>ValueError(f"Environment variable {name!r} not set!")\<close>,
    the specification's \<^verbatim>\<open>ConfigurationError\<close>;
  \<^item> \<open>UnknownArchitecture arch\<close> is \<^verbatim>\<open>ValueError(f"Unknown architecture: {arch}")\<close>,
    the specification's \<^verbatim>\<open>UnknownArchitectureError\<close>;
  \<^item> \<open>TypeError msg\<close> is \<^verbatim>\<open>TypeError(msg)\<close>, the specification's
    \<^verbatim>\<open>TypeMismatchError\<close>;
  \<^item> \<open>JSONDecodeError\<close> is raised by \<^verbatim>\<open>json.loads\<close>, the specification's
    \<^verbatim>\<open>DecodeError\<close>;
  \<^item> \<open>IndexError\<close> is raised by indexing a list out of range;
  \<^item> \<open>FileNotFoundError\<close>, \<open>FileExistsError\<close>, \<open>NotADirectoryError\<close>,
    \<open>IsADirectoryError\<close>, each with the path it names, and \<open>OSError\<close> for any other
    failure come from the file system calls;
  \<^item> \<open>RequestException\<close> is raised by \<^verbatim>\<open>requests.get\<close>, the specification's
    \<^verbatim>\<open>NetworkError\<close>.
\<close>

datatype py_error =
    EnvNotSet string
  | UnknownArchitecture string
  | TypeError string
  | JSONDecodeError
  | IndexError
  | FileNotFoundError string
  | FileExistsError string
  | NotADirectoryError string
  | IsADirectoryError string
  | OSError
  | RequestException

subsection \<open>Environment variables\<close>

text \<open>
  The process environment maps a variable name to its value. \<^verbatim>\<open>os.getenv(name)\<close> is the
  lookup, \<^verbatim>\<open>None\<close> for an unset variable.
\<close>

type_synonym environ = "string \<rightharpoonup> string"

text \<open>
  \<^verbatim>\<open>
  def require_env(name: str) -> str:
      var = os.getenv(name)
      if not var:
          raise ValueError(f"Environment variable {name!r} not set!")
      return var
  \<close>
  \<^verbatim>\<open>not var\<close> holds for \<^verbatim>\<open>None\<close> and for the empty string.
\<close>

definition require_env :: "environ \<Rightarrow> string \<Rightarrow> py_error + string" where
  "require_env env name =
     (case env name of
        None \<Rightarrow> Inl (EnvNotSet name)
      | Some var \<Rightarrow> if var = [] then Inl (EnvNotSet name) else Inr var)"

definition get_workspace_dir :: "environ \<Rightarrow> py_error + string" where
  "get_workspace_dir env = require_env env ''VELOCITAS_WORKSPACE_DIR''"

definition get_package_path :: "environ \<Rightarrow> py_error + string" where
  "get_package_path env = require_env env ''VELOCITAS_PACKAGE_DIR''"

definition get_project_cache_dir :: "environ \<Rightarrow> py_error + string" where
  "get_project_cache_dir env = require_env env ''VELOCITAS_CACHE_DIR''"

definition get_programming_language :: "environ \<Rightarrow> py_error + string" where
  "get_programming_language env = require_env env ''language''"

subsection \<open>Strings\<close>








text \<open>
  \<^verbatim>\<open>xs[start:]\<close>: a negative start counts from the end, and a start out of range is
  clipped to the nearest end of the list.
\<close>

definition slice_from :: "'a list \<Rightarrow> int \<Rightarrow> 'a list" where
  "slice_from xs start =
     (if start < 0 then drop (nat (max (int (length xs) + start) 0)) xs
      else drop (nat start) xs)"

text \<open>\<^verbatim>\<open>sub in s\<close> on strings: \<open>sub\<close> starts at some position of \<open>s\<close>.\<close>

fun str_contains :: "string \<Rightarrow> string \<Rightarrow> bool" where
  "str_contains [] sub = (sub = [])"
| "str_contains (c # cs) sub = (prefix sub (c # cs) \<or> str_contains cs sub)"

subsection \<open>Case conversion, truncation, architecture names\<close>


text \<open>
  \<^verbatim>\<open>
  def create_truncated_string(input: str, length: int) -> str:
      """Create a truncated version of input if it is longer than length.
      Will keep the rightmost characters and cut of the front if it is
      longer than allowed.

      Args:
          input (str): The input string.
          length (int): The allowed overall length.

      Returns:
          str: A truncated string which has len() of length.
      """
      if len(input) < length:
          return input
      return f"...{input[-length+3:]}"
  \<close>
  The start of the slice is \<^verbatim>\<open>(-length) + 3\<close>.
\<close>

definition create_truncated_string :: "string \<Rightarrow> int \<Rightarrow> string" where
  "create_truncated_string input len =
     (if int (length input) < len then input
      else ''...'' @ slice_from input (- len + 3))"

text \<open>
  \<^verbatim>\<open>
  def get_valid_arch(arch: str) -> str:
      if "x86_64" in arch or "amd64" in arch:
          return "x86_64"
      elif "aarch64" in arch or "arm64" in arch:
          return "aarch64"
      raise ValueError(f"Unknown architecture: {arch}")
  \<close>
\<close>

definition get_valid_arch :: "string \<Rightarrow> py_error + string" where
  "get_valid_arch arch =
     (if str_contains arch ''x86_64'' \<or> str_contains arch ''amd64'' then Inr ''x86_64''
      else if str_contains arch ''aarch64'' \<or> str_contains arch ''arm64'' then Inr ''aarch64''
      else Inl (UnknownArchitecture arch))"

subsection \<open>Capturing a region of a text file\<close>

text \<open>
  \<^verbatim>\<open>str.strip()\<close> and \<^verbatim>\<open>str.rstrip()\<close> without argument remove white space, the
  characters for which \<^verbatim>\<open>str.isspace\<close> holds. Below 256 these are the code points 9 to 13,
  28 to 32, 133 and 160.
\<close>

definition is_space :: "char \<Rightarrow> bool" where
  "is_space c =
     (let n = (of_char c :: nat)
      in (9 \<le> n \<and> n \<le> 13) \<or> (28 \<le> n \<and> n \<le> 32) \<or> n = 133 \<or> n = 160)"

definition rstrip :: "string \<Rightarrow> string" where
  "rstrip s = rev (dropWhile is_space (rev s))"

definition strip :: "string \<Rightarrow> string" where
  "strip s = dropWhile is_space (rstrip s)"

text \<open>
  \<^verbatim>\<open>
  def capture_textfile_area(file, start_line, end_line, map_fn=None) -> List[str]:
      """Capture an area of a textfile between a matching start line (exclusive)
      and the first line matching end_line (exclusive).

      Args:
          start_line (str): The line which triggers the capture (will not be part of the output)
          end_line (str): The line which terminates the capture (will not be bart of the output)
      """
      area_content: List[str] = []
      is_capturing = False
      for line in file:
          if line.strip() == start_line:
              is_capturing = True
          elif line.strip() == end_line:
              is_capturing = False
          elif is_capturing:
              line = line.rstrip()
              if map_fn:
                  line = map_fn(line)
              area_content.append(line)
      return area_content
  \<close>
  The file is the sequence of its lines, as iterating over it gives them. The loop is
  \<open>capture_loop\<close>, with the loop variables \<open>is_capturing\<close> and \<open>area_content\<close> as
  arguments; \<open>map_fn\<close> is \<open>None\<close> or a function.
\<close>

fun capture_loop ::
  "string \<Rightarrow> string \<Rightarrow> (string \<Rightarrow> string) option \<Rightarrow> bool \<Rightarrow> string list \<Rightarrow> string list
     \<Rightarrow> string list" where
  "capture_loop start_line end_line map_fn is_capturing area_content [] = area_content"
| "capture_loop start_line end_line map_fn is_capturing area_content (line # file) =
     (if strip line = start_line then
        capture_loop start_line end_line map_fn True area_content file
      else if strip line = end_line then
        capture_loop start_line end_line map_fn False area_content file
      else if is_capturing then
        capture_loop start_line end_line map_fn is_capturing
          (area_content @ [case map_fn of None \<Rightarrow> rstrip line | Some f \<Rightarrow> f (rstrip line)]) file
      else capture_loop start_line end_line map_fn is_capturing area_content file)"

definition capture_textfile_area ::
  "string list \<Rightarrow> string \<Rightarrow> string \<Rightarrow> (string \<Rightarrow> string) option \<Rightarrow> string list" where
  "capture_textfile_area file start_line end_line map_fn =
     capture_loop start_line end_line map_fn False [] file"

text \<open>
  The value of the loop variable \<open>is_capturing\<close> when the loop, started with
  \<^verbatim>\<open>False\<close>, reaches line \<open>i\<close>: some line \<open>j\<close> before \<open>i\<close> has the trimmed content of
  the start marker and set it, and no line after \<open>j\<close> and before \<open>i\<close> has the trimmed
  content of the end marker. \<open>captured_line\<close> is what the loop appends for a line it
  captures.
\<close>

definition is_capturing_at :: "string list \<Rightarrow> string \<Rightarrow> string \<Rightarrow> nat \<Rightarrow> bool" where
  "is_capturing_at file start_line end_line i =
     (\<exists>j \<in> set [0..<i]. strip (file ! j) = start_line
        \<and> (\<forall>l \<in> set (drop (Suc j) (take i file)). strip l \<noteq> end_line))"

definition captured_line :: "(string \<Rightarrow> string) option \<Rightarrow> string \<Rightarrow> string" where
  "captured_line map_fn line = (case map_fn of None \<Rightarrow> rstrip line | Some f \<Rightarrow> f (rstrip line))"

subsection \<open>The application manifest and the cache data\<close>

text \<open>
  What \<^verbatim>\<open>json.loads\<close> returns: \<^verbatim>\<open>None\<close>, a \<^verbatim>\<open>bool\<close>, an \<^verbatim>\<open>int\<close>, a
  \<^verbatim>\<open>float\<close>, a \<^verbatim>\<open>str\<close>, a \<^verbatim>\<open>list\<close> or a \<^verbatim>\<open>dict\<close> with string keys. The
  representation \<open>'f\<close> of a float is left open. The decoder itself belongs to Python's
  standard library; the functions below take it as the argument \<open>json_loads\<close>, which
  returns \<open>Inl JSONDecodeError\<close> on a text that is not JSON.
\<close>

datatype 'f json =
    JNull
  | JBool bool
  | JInt int
  | JFloat 'f
  | JString string
  | JArray "'f json list"
  | JObject "(string \<times> 'f json) list"

text \<open>\<^verbatim>\<open>isinstance(v, dict)\<close>\<close>

fun is_dict :: "'f json \<Rightarrow> bool" where
  "is_dict (JObject kvs) = True"
| "is_dict v = False"

text \<open>
  \<^verbatim>\<open>
  def get_app_manifest() -> Dict[str, Any]:
      manifest_data = json.loads(require_env("VELOCITAS_APP_MANIFEST"))
      if isinstance(manifest_data, dict):
          return manifest_data
      elif isinstance(manifest_data, list) and isinstance(manifest_data[0], dict):
          return manifest_data[0]
      else:
          raise TypeError("Manifest must be a dict or array!")
  \<close>
  For a list, \<^verbatim>\<open>manifest_data[0]\<close> is evaluated before its type is tested; on the empty
  list it raises \<^verbatim>\<open>IndexError\<close>.
\<close>

definition get_app_manifest ::
  "(string \<Rightarrow> py_error + 'f json) \<Rightarrow> environ \<Rightarrow> py_error + 'f json" where
  "get_app_manifest json_loads env =
     (case require_env env ''VELOCITAS_APP_MANIFEST'' of
        Inl err \<Rightarrow> Inl err
      | Inr var \<Rightarrow>
          (case json_loads var of
             Inl err \<Rightarrow> Inl err
           | Inr manifest_data \<Rightarrow>
               if is_dict manifest_data then Inr manifest_data
               else (case manifest_data of
                       JArray [] \<Rightarrow> Inl IndexError
                     | JArray (first # rest) \<Rightarrow>
                         if is_dict first then Inr first
                         else Inl (TypeError ''Manifest must be a dict or array!'')
                     | _ \<Rightarrow> Inl (TypeError ''Manifest must be a dict or array!''))))"

text \<open>
  \<^verbatim>\<open>
  def get_cache_data() -> Dict[str, Any]:
      cache_data = json.loads(require_env("VELOCITAS_CACHE_DATA"))
      if not isinstance(cache_data, dict):
          raise TypeError("VELOCITAS_CACHE_DATA has to be a JSON object!")
      return cache_data
  \<close>
\<close>

definition get_cache_data ::
  "(string \<Rightarrow> py_error + 'f json) \<Rightarrow> environ \<Rightarrow> py_error + 'f json" where
  "get_cache_data json_loads env =
     (case require_env env ''VELOCITAS_CACHE_DATA'' of
        Inl err \<Rightarrow> Inl err
      | Inr var \<Rightarrow>
          (case json_loads var of
             Inl err \<Rightarrow> Inl err
           | Inr cache_data \<Rightarrow>
               if \<not> is_dict cache_data
               then Inl (TypeError ''VELOCITAS_CACHE_DATA has to be a JSON object!'')
               else Inr cache_data))"

subsection \<open>The log file name\<close>

text \<open>
  \<^verbatim>\<open>os.path.join\<close> on a POSIX system, from the standard library's \<^verbatim>\<open>posixpath\<close>:
  \<^verbatim>\<open>
  def join(a, *p):
      path = a
      for b in p:
          if b.startswith('/'):
              path = b
          elif not path or path.endswith('/'):
              path += b
          else:
              path += '/' + b
      return path
  \<close>
  \<open>join_step\<close> is the body of the loop.
\<close>

definition join_step :: "string \<Rightarrow> string \<Rightarrow> string" where
  "join_step path b =
     (if prefix ''/'' b then b
      else if path = [] \<or> suffix ''/'' path then path @ b
      else path @ ''/'' @ b)"

definition path_join :: "string \<Rightarrow> string list \<Rightarrow> string" where
  "path_join a p = foldl join_step a p"

text \<open>
  \<^verbatim>\<open>
  def get_log_file_name(service_id: str, runtime_id: str) -> str:
      return os.path.join(get_workspace_dir(), "logs", runtime_id, f"{service_id}.log")
  \<close>
\<close>

definition get_log_file_name :: "environ \<Rightarrow> string \<Rightarrow> string \<Rightarrow> py_error + string" where
  "get_log_file_name env service_id runtime_id =
     (case get_workspace_dir env of
        Inl err \<Rightarrow> Inl err
      | Inr workspace_dir \<Rightarrow>
          Inr (path_join workspace_dir [''logs'', runtime_id, service_id @ ''.log'']))"

subsection \<open>Files\<close>

text \<open>
  The file system, as far as the module uses it: the directories that exist, by name, and
  the regular files with their contents. A text file holds its decoded text, a binary file
  its bytes. Paths are POSIX paths and are compared as strings; the current directory and
  the root always exist.
\<close>

record 'b file_system =
  dirs :: "string set"
  files :: "string \<rightharpoonup> 'b list"



text \<open>
  A file opened for reading in text mode with the default \<^verbatim>\<open>newline=None\<close> is read with
  universal newlines: \<^verbatim>\<open>\r\n\<close> and a \<^verbatim>\<open>\r\<close> alone both arrive as \<^verbatim>\<open>\n\<close>.
  Iterating over the file gives its lines, each with its \<^verbatim>\<open>\n\<close>, the last one without
  when the text does not end with one. On a POSIX system writing in text mode leaves
  \<^verbatim>\<open>\n\<close> as it is.
\<close>

fun universal_newlines :: "string \<Rightarrow> string" where
  "universal_newlines [] = []"
| "universal_newlines [c] = (if c = CHR 0x0D then [CHR 0x0A] else [c])"
| "universal_newlines (c # d # cs) =
     (if c = CHR 0x0D \<and> d = CHR 0x0A then CHR 0x0A # universal_newlines cs
      else if c = CHR 0x0D then CHR 0x0A # universal_newlines (d # cs)
      else c # universal_newlines (d # cs))"




subsection \<open>Downloading a file\<close>

text \<open>
  \<^verbatim>\<open>os.path.split\<close> on a POSIX system, from \<^verbatim>\<open>posixpath\<close>:
  \<^verbatim>\<open>
  def split(p):
      i = p.rfind('/') + 1
      head, tail = p[:i], p[i:]
      if head and head != '/'*len(head):
          head = head.rstrip('/')
      return head, tail
  \<close>
\<close>

definition path_split :: "string \<Rightarrow> string \<times> string" where
  "path_split p =
     (let tail = rev (takeWhile (\<lambda>c. c \<noteq> CHR ''/'') (rev p));
          head = rev (dropWhile (\<lambda>c. c \<noteq> CHR ''/'') (rev p))
      in if head \<noteq> [] \<and> \<not> (\<forall>c \<in> set head. c = CHR ''/'')
         then (rev (dropWhile (\<lambda>c. c = CHR ''/'') (rev head)), tail)
         else (head, tail))"

text \<open>
  \<^verbatim>\<open>os.makedirs(name, exist_ok=True)\<close> creates the directory \<open>name\<close> and the directories
  above it that are missing, and accepts that \<open>name\<close> exists as a directory. It raises
  \<open>FileNotFoundError\<close> for the empty name, and fails when \<open>name\<close> or a path above it
  is a regular file. \<open>ancestors name\<close> are the paths above \<open>name\<close>: its prefixes that end
  before a separator.
\<close>

definition ancestors :: "string \<Rightarrow> string list" where
  "ancestors name =
     map (\<lambda>i. take i name) (filter (\<lambda>i. 0 < i \<and> name ! i = CHR ''/'') [0..<length name])"

definition makedirs :: "string \<Rightarrow> 'b file_system \<Rightarrow> py_error + 'b file_system" where
  "makedirs name fs =
     (if name = [] then Inl (FileNotFoundError name)
      else if \<exists>a \<in> set (ancestors name). a \<in> dom (files fs) then Inl (NotADirectoryError name)
      else if name \<in> dom (files fs) then Inl (FileExistsError name)
      else Inr (fs\<lparr>dirs := dirs fs \<union> set (ancestors name) \<union> {name}\<rparr>))"

text \<open>
  \<^verbatim>\<open>open(path, "wb")\<close> creates the file or empties it. It fails when the path names a
  directory or when the directory of the path does not exist.
\<close>

definition open_wb :: "string \<Rightarrow> 'b file_system \<Rightarrow> py_error + 'b file_system" where
  "open_wb path fs =
     (let parent = fst (path_split path)
      in if snd (path_split path) = [] \<or> path \<in> dirs fs then Inl (IsADirectoryError path)
         else if parent \<noteq> [] \<and> \<not> (\<forall>c \<in> set parent. c = CHR ''/'') \<and> parent \<notin> dirs fs
         then Inl (FileNotFoundError path)
         else Inr (fs\<lparr>files := (files fs)(path \<mapsto> [])\<rparr>))"

text \<open>\<^verbatim>\<open>outfile.write(chunk)\<close> appends the chunk to the open file.\<close>

definition file_write :: "string \<Rightarrow> 'b list \<Rightarrow> 'b file_system \<Rightarrow> 'b file_system" where
  "file_write path chunk fs =
     fs\<lparr>files := (files fs)(path \<mapsto>
       (case files fs path of None \<Rightarrow> [] | Some written \<Rightarrow> written) @ chunk)\<rparr>"

text \<open>
  \<^verbatim>\<open>requests.get(uri, timeout=30)\<close> without \<^verbatim>\<open>stream=True\<close> reads the whole body, and
  \<^verbatim>\<open>iter_content(chunk_size)\<close> then cuts it with \<^verbatim>\<open>iter_slices\<close> of the
  \<^verbatim>\<open>requests\<close> library:
  \<^verbatim>\<open>
  def iter_slices(string, slice_length):
      pos = 0
      if slice_length is None or slice_length <= 0:
          slice_length = len(string)
      while pos < len(string):
          yield string[pos : pos + slice_length]
          pos += slice_length
  \<close>
\<close>

function iter_slices :: "'b list \<Rightarrow> nat \<Rightarrow> 'b list list" where
  "iter_slices string slice_length =
     (if string = [] then []
      else if slice_length = 0 then [string]
      else take slice_length string # iter_slices (drop slice_length string) slice_length)"
  by pat_completeness auto
termination
  by (relation "measure (\<lambda>(string, slice_length). length string)") auto

declare iter_slices.simps [simp del]

text \<open>
  \<^verbatim>\<open>
  def download_file(uri: str, local_file_path: str) -> None:
      with requests.get(uri, timeout=30) as infile:
          os.makedirs(os.path.split(local_file_path)[0], exist_ok=True)
          with open(local_file_path, "wb") as outfile:
              for chunk in infile.iter_content(chunk_size=8192):
                  outfile.write(chunk)
  \<close>
  The network is the argument \<open>http_get\<close>: the body of the response to a request for
  \<open>uri\<close>, or the exception that \<^verbatim>\<open>requests.get\<close> raises. The function returns the
  exception, if any, and the file system it leaves.
\<close>

definition download_file ::
  "(string \<Rightarrow> py_error + 'b list) \<Rightarrow> 'b file_system \<Rightarrow> string \<Rightarrow> string
     \<Rightarrow> py_error option \<times> 'b file_system" where
  "download_file http_get fs uri local_file_path =
     (case http_get uri of
        Inl err \<Rightarrow> (Some err, fs)
      | Inr content \<Rightarrow>
          (case makedirs (fst (path_split local_file_path)) fs of
             Inl err \<Rightarrow> (Some err, fs)
           | Inr fs1 \<Rightarrow>
               (case open_wb local_file_path fs1 of
                  Inl err \<Rightarrow> (Some err, fs1)
                | Inr fs2 \<Rightarrow>
                    (None, foldl (\<lambda>fs' chunk. file_write local_file_path chunk fs') fs2
                             (iter_slices content 8192)))))"

section \<open>Properties\<close>

subsection \<open>Required environment variables\<close>

lemma require_env_cases:
  "require_env env name = Inl (EnvNotSet name) \<or> (\<exists>v. v \<noteq> [] \<and> env name = Some v \<and> require_env env name = Inr v)"
  by (simp add: require_env_def split: option.splits)

text \<open>
  Claim C7. \<open>require_env\<close> fails, and then with the error for this variable name, exactly
  when the variable is unset or set to the empty string; otherwise it returns the value of
  the variable as it is. The workspace, package, cache directory and programming language
  accessors are \<open>require_env\<close> at their fixed variable names, so they fail and return in
  the same way.
\<close>

theorem require_env_contract:
  "(isl (require_env env name) \<longleftrightarrow> env name = None \<or> env name = Some [])
   \<and> (isl (require_env env name) \<longrightarrow> require_env env name = Inl (EnvNotSet name))
   \<and> (\<forall>v. env name = Some v \<and> v \<noteq> [] \<longrightarrow> require_env env name = Inr v)
   \<and> get_workspace_dir env = require_env env ''VELOCITAS_WORKSPACE_DIR''
   \<and> get_package_path env = require_env env ''VELOCITAS_PACKAGE_DIR''
   \<and> get_project_cache_dir env = require_env env ''VELOCITAS_CACHE_DIR''
   \<and> get_programming_language env = require_env env ''language''"
  by (simp add: require_env_def get_workspace_dir_def get_package_path_def
      get_project_cache_dir_def get_programming_language_def split: option.splits)

theorem require_env_contract_witness:
  "isl (require_env Map.empty ''language'')
   \<and> require_env Map.empty ''language'' = Inl (EnvNotSet ''language'')
   \<and> isl (require_env [''language'' \<mapsto> ''''] ''language'')
   \<and> [''language'' \<mapsto> ''python''] ''language'' = Some ''python'' \<and> ''python'' \<noteq> ''''
   \<and> require_env [''language'' \<mapsto> ''python''] ''language'' = Inr ''python''
   \<and> get_programming_language [''language'' \<mapsto> ''python''] = Inr ''python''"
proof -
  have unset: "Map.empty ''language'' = None \<or> Map.empty ''language'' = Some ''''"
    by simp
  have blank: "[''language'' \<mapsto> ''''] ''language'' = None
      \<or> [''language'' \<mapsto> ''''] ''language'' = Some ''''"
    by simp
  have given: "[''language'' \<mapsto> ''python''] ''language'' = Some ''python'' \<and> ''python'' \<noteq> ''''"
    by simp
  from unset require_env_contract [of Map.empty "''language''"]
  have 1: "isl (require_env Map.empty ''language'')
      \<and> require_env Map.empty ''language'' = Inl (EnvNotSet ''language'')"
    by blast
  from blank require_env_contract [of "[''language'' \<mapsto> '''']" "''language''"]
  have 2: "isl (require_env [''language'' \<mapsto> ''''] ''language'')"
    by blast
  from given require_env_contract [of "[''language'' \<mapsto> ''python'']" "''language''"]
  have 3: "require_env [''language'' \<mapsto> ''python''] ''language'' = Inr ''python''
      \<and> get_programming_language [''language'' \<mapsto> ''python''] = Inr ''python''"
    by metis
  from 1 2 3 given show ?thesis
    by blast
qed

subsection \<open>Camel case\<close>























subsection \<open>Truncation\<close>

lemma slice_from_rightmost:
  assumes "3 < len" and "len \<le> int (length s)"
  shows "slice_from s (- len + 3) = drop (length s - nat (len - 3)) s"
proof -
  from assms have "nat (max (int (length s) + (- len + 3)) 0) = length s - nat (len - 3)"
    by linarith
  with assms show ?thesis
    by (simp add: slice_from_def)
qed

text \<open>
  Claim C3 at length 3. The input \<^verbatim>\<open>abcd\<close> is longer than 3, and the output should be
  the marker followed by the rightmost 0 characters, of length 3. The start of the slice
  is \<^verbatim>\<open>-3+3\<close>, which is 0 and not a negative index, so the slice \<^verbatim>\<open>input[0:]\<close> is the
  whole input: the output is \<^verbatim>\<open>...abcd\<close>, of length 7.
\<close>

theorem create_truncated_string_length_3:
  "3 < int (length ''abcd'')
   \<and> create_truncated_string ''abcd'' 3 = ''...abcd''
   \<and> int (length (create_truncated_string ''abcd'' 3)) \<noteq> 3"
  by (simp add: create_truncated_string_def slice_from_def)

text \<open>
  Where the start of the slice is negative the function does what its documentation says.
  A string shorter than \<open>len\<close> is returned unchanged. For \<open>len\<close> greater than 3, a
  string longer than \<open>len\<close> becomes the marker \<^verbatim>\<open>...\<close> followed by its rightmost
  \<open>len - 3\<close> characters: the output has length exactly \<open>len\<close>, and these \<open>len - 3\<close>
  characters end both the input and the output.
\<close>

lemma create_truncated_string_contract:
  "(int (length s) < len \<longrightarrow> create_truncated_string s len = s)
   \<and> (len < int (length s) \<and> 3 < len \<longrightarrow>
        create_truncated_string s len = ''...'' @ drop (length s - nat (len - 3)) s
        \<and> length (drop (length s - nat (len - 3)) s) = nat (len - 3)
        \<and> int (length (create_truncated_string s len)) = len
        \<and> suffix (drop (length s - nat (len - 3)) s) s
        \<and> suffix (drop (length s - nat (len - 3)) s) (create_truncated_string s len))"
proof (intro conjI impI)
  show "create_truncated_string s len = s" if "int (length s) < len"
    using that by (simp add: create_truncated_string_def)
next
  assume h: "len < int (length s) \<and> 3 < len"
  then have sl: "slice_from s (- len + 3) = drop (length s - nat (len - 3)) s"
    by (intro slice_from_rightmost) simp_all
  from h show eq: "create_truncated_string s len = ''...'' @ drop (length s - nat (len - 3)) s"
    unfolding create_truncated_string_def sl by simp
  from h show ln: "length (drop (length s - nat (len - 3)) s) = nat (len - 3)"
    by simp linarith
  from h ln show "int (length (create_truncated_string s len)) = len"
    by (simp add: eq)
  show "suffix (drop (length s - nat (len - 3)) s) s"
    by (rule suffix_drop)
  show "suffix (drop (length s - nat (len - 3)) s) (create_truncated_string s len)"
    unfolding eq by (rule suffix_appendI) simp
qed

lemma create_truncated_string_contract_example:
  "int (length ''ab'') < 5 \<and> create_truncated_string ''ab'' 5 = ''ab''
   \<and> 5 < int (length ''abcdefgh'') \<and> (3::int) < 5
   \<and> create_truncated_string ''abcdefgh'' 5 = ''...gh''
   \<and> int (length (create_truncated_string ''abcdefgh'' 5)) = 5
   \<and> suffix ''gh'' ''abcdefgh''
   \<and> suffix ''gh'' (create_truncated_string ''abcdefgh'' 5)"
proof -
  have short: "int (length ''ab'') < 5"
    by simp
  have long: "5 < int (length ''abcdefgh'') \<and> (3::int) < 5"
    by simp
  have tail: "drop (length ''abcdefgh'' - nat (5 - 3)) ''abcdefgh'' = ''gh''"
    by simp
  from short create_truncated_string_contract [of "''ab''" 5]
  have 1: "create_truncated_string ''ab'' 5 = ''ab''"
    by blast
  from long create_truncated_string_contract [of "''abcdefgh''" 5]
  have 2: "create_truncated_string ''abcdefgh'' 5
        = ''...'' @ drop (length ''abcdefgh'' - nat (5 - 3)) ''abcdefgh''
      \<and> int (length (create_truncated_string ''abcdefgh'' 5)) = 5
      \<and> suffix (drop (length ''abcdefgh'' - nat (5 - 3)) ''abcdefgh'') ''abcdefgh''
      \<and> suffix (drop (length ''abcdefgh'' - nat (5 - 3)) ''abcdefgh'')
          (create_truncated_string ''abcdefgh'' 5)"
    by blast
  from 2 have 3: "create_truncated_string ''abcdefgh'' 5 = ''...gh''"
    unfolding tail by simp
  from short long 1 2 3 show ?thesis
    unfolding tail by blast
qed

text \<open>
  Claim C4. At length 3 an input of 3 or more characters is returned whole behind the
  marker, so the output has length \<open>length s + 3\<close>; and for every \<open>len\<close> of 3 or less and
  every input of at least \<open>len\<close> characters the output is strictly longer than \<open>len\<close>.
\<close>

theorem create_truncated_string_short_length:
  "(3 \<le> length s \<longrightarrow> create_truncated_string s 3 = ''...'' @ s
       \<and> length (create_truncated_string s 3) = length s + 3)
   \<and> (len \<le> 3 \<and> len \<le> int (length s) \<longrightarrow> len < int (length (create_truncated_string s len)))"
  by (auto simp: create_truncated_string_def slice_from_def)

theorem create_truncated_string_short_length_witness:
  "3 \<le> length ''abcd'' \<and> create_truncated_string ''abcd'' 3 = ''...abcd''
   \<and> length (create_truncated_string ''abcd'' 3) = length ''abcd'' + 3
   \<and> (2::int) \<le> 3 \<and> 2 \<le> int (length ''abc'')
   \<and> 2 < int (length (create_truncated_string ''abc'' 2))"
proof -
  have a: "3 \<le> length ''abcd''"
    by simp
  have b: "(2::int) \<le> 3 \<and> 2 \<le> int (length ''abc'')"
    by simp
  from a create_truncated_string_short_length [of "''abcd''" 0]
  have 1: "create_truncated_string ''abcd'' 3 = ''...'' @ ''abcd''
      \<and> length (create_truncated_string ''abcd'' 3) = length ''abcd'' + 3"
    by blast
  from b create_truncated_string_short_length [of "''abc''" 2]
  have 2: "2 < int (length (create_truncated_string ''abc'' 2))"
    by blast
  from a b 1 2 show ?thesis
    by simp
qed

subsection \<open>Architecture names\<close>

text \<open>The test \<^verbatim>\<open>sub in s\<close> is the substring relation.\<close>

lemma str_contains_sublist: "str_contains s sub \<longleftrightarrow> sublist sub s"
  by (induction s) (simp_all add: sublist_Cons_right)

lemma str_contains_iff: "str_contains s sub \<longleftrightarrow> (\<exists>p q. s = p @ sub @ q)"
  by (simp add: str_contains_sublist sublist_def)

text \<open>
  Claim C6. An architecture string that contains \<^verbatim>\<open>x86_64\<close> or \<^verbatim>\<open>amd64\<close> gives
  \<^verbatim>\<open>x86_64\<close>; otherwise one that contains \<^verbatim>\<open>aarch64\<close> or \<^verbatim>\<open>arm64\<close> gives
  \<^verbatim>\<open>aarch64\<close>; every other string fails with the unknown-architecture error. So
  \<^verbatim>\<open>amd64\<close> gives \<^verbatim>\<open>x86_64\<close>, \<^verbatim>\<open>arm64v8\<close> gives \<^verbatim>\<open>aarch64\<close> and \<^verbatim>\<open>mips\<close> fails.
\<close>

theorem get_valid_arch_cases:
  "(sublist ''x86_64'' arch \<or> sublist ''amd64'' arch \<longrightarrow> get_valid_arch arch = Inr ''x86_64'')
   \<and> (\<not> (sublist ''x86_64'' arch \<or> sublist ''amd64'' arch)
        \<and> (sublist ''aarch64'' arch \<or> sublist ''arm64'' arch)
        \<longrightarrow> get_valid_arch arch = Inr ''aarch64'')
   \<and> (\<not> (sublist ''x86_64'' arch \<or> sublist ''amd64'' arch
           \<or> sublist ''aarch64'' arch \<or> sublist ''arm64'' arch)
        \<longrightarrow> get_valid_arch arch = Inl (UnknownArchitecture arch))
   \<and> get_valid_arch ''amd64'' = Inr ''x86_64''
   \<and> get_valid_arch ''arm64v8'' = Inr ''aarch64''
   \<and> get_valid_arch ''mips'' = Inl (UnknownArchitecture ''mips'')"
  by (simp add: get_valid_arch_def str_contains_sublist [symmetric])

theorem get_valid_arch_cases_witness:
  "sublist ''amd64'' ''linux/amd64'' \<and> get_valid_arch ''linux/amd64'' = Inr ''x86_64''
   \<and> \<not> sublist ''x86_64'' ''arm64v8'' \<and> \<not> sublist ''amd64'' ''arm64v8''
   \<and> sublist ''arm64'' ''arm64v8'' \<and> get_valid_arch ''arm64v8'' = Inr ''aarch64''
   \<and> \<not> sublist ''x86_64'' ''mips'' \<and> \<not> sublist ''amd64'' ''mips''
   \<and> \<not> sublist ''aarch64'' ''mips'' \<and> \<not> sublist ''arm64'' ''mips''
   \<and> get_valid_arch ''mips'' = Inl (UnknownArchitecture ''mips'')"
proof -
  have a: "sublist ''amd64'' ''linux/amd64''"
    by (simp add: str_contains_sublist [symmetric])
  have b: "\<not> sublist ''x86_64'' ''arm64v8'' \<and> \<not> sublist ''amd64'' ''arm64v8''
      \<and> sublist ''arm64'' ''arm64v8''"
    by (simp add: str_contains_sublist [symmetric])
  have c: "\<not> sublist ''x86_64'' ''mips'' \<and> \<not> sublist ''amd64'' ''mips''
      \<and> \<not> sublist ''aarch64'' ''mips'' \<and> \<not> sublist ''arm64'' ''mips''"
    by (simp add: str_contains_sublist [symmetric])
  from a get_valid_arch_cases [of "''linux/amd64''"]
  have 1: "get_valid_arch ''linux/amd64'' = Inr ''x86_64''"
    by blast
  from b get_valid_arch_cases [of "''arm64v8''"]
  have 2: "get_valid_arch ''arm64v8'' = Inr ''aarch64''"
    by blast
  from c get_valid_arch_cases [of "''mips''"]
  have 3: "get_valid_arch ''mips'' = Inl (UnknownArchitecture ''mips'')"
    by blast
  from a b c 1 2 3 show ?thesis
    by blast
qed

subsection \<open>Capturing a region\<close>

text \<open>
  Stripping removes the white space around a text that itself starts and ends with other
  characters, so a line is a marker line when it is the marker with white space around it,
  the end of the line included.
\<close>

lemma rstrip_surrounded:
  assumes "\<forall>c \<in> set ws. is_space c" and "m \<noteq> []" and "\<not> is_space (last m)"
  shows "rstrip (p @ m @ ws) = p @ m"
proof -
  from assms(1) have "dropWhile is_space (rev ws @ rev m @ rev p) = dropWhile is_space (rev m @ rev p)"
    by (intro dropWhile_append2) simp
  moreover from assms(2,3) have "dropWhile is_space (rev m @ rev p) = rev m @ rev p"
    by (cases m rule: rev_cases) simp_all
  ultimately show ?thesis
    by (simp add: rstrip_def)
qed

lemma strip_surrounded:
  assumes "\<forall>c \<in> set ws1. is_space c" and "\<forall>c \<in> set ws2. is_space c"
    and "m \<noteq> []" and "\<not> is_space (hd m)" and "\<not> is_space (last m)"
  shows "strip (ws1 @ m @ ws2) = m"
proof -
  from assms(2,3,5) have "rstrip (ws1 @ m @ ws2) = ws1 @ m"
    by (rule rstrip_surrounded)
  moreover from assms(1) have "dropWhile is_space (ws1 @ m) = dropWhile is_space m"
    by (intro dropWhile_append2) simp
  moreover from assms(3,4) have "dropWhile is_space m = m"
    by (cases m) simp_all
  ultimately show ?thesis
    by (simp add: strip_def)
qed

lemma is_capturing_at_0: "\<not> is_capturing_at ls s e 0"
  by (simp add: is_capturing_at_def)

lemma is_capturing_at_Suc:
  "is_capturing_at (x # xs) s e (Suc i) \<longleftrightarrow>
     (strip x = s \<and> (\<forall>l \<in> set (take i xs). strip l \<noteq> e)) \<or> is_capturing_at xs s e i"
  by (simp add: is_capturing_at_def Bex_def Ex_less_Suc2 del: upt_Suc)

text \<open>
  The loop started in any state: \<open>is_capturing\<close> holds at line \<open>i\<close> when it held at the
  start and no end marker came before \<open>i\<close>, or when it was switched on before \<open>i\<close>.
\<close>

lemma capture_loop_nths:
  "capture_loop s e m c acc ls =
     acc @ map (captured_line m)
       (nths ls {i. (c \<and> (\<forall>l \<in> set (take i ls). strip l \<noteq> e) \<or> is_capturing_at ls s e i)
                      \<and> strip (ls ! i) \<noteq> s \<and> strip (ls ! i) \<noteq> e})"
proof (induction ls arbitrary: c acc)
  case Nil
  show ?case by simp
next
  case (Cons x xs)
  show ?case
    by (auto simp: Cons nths_Cons is_capturing_at_0 is_capturing_at_Suc captured_line_def
        intro!: arg_cong [where f = "map _"] arg_cong2 [where f = nths])
qed

lemma capture_loop_open:
  "\<forall>l \<in> set ls. strip l \<noteq> e \<Longrightarrow>
   capture_loop s e m True acc ls = acc @ map (captured_line m) (filter (\<lambda>l. strip l \<noteq> s) ls)"
  by (induction ls arbitrary: acc) (simp_all add: captured_line_def)

lemma capture_loop_reaches_start:
  "strip x = s \<Longrightarrow>
   \<exists>acc'. capture_loop s e m c acc (xs @ x # ys) = capture_loop s e m True acc' ys"
  by (induction xs arbitrary: c acc) auto

text \<open>
  What the loop computes: in the order of the input, every line that is reached with
  \<open>is_capturing\<close> set and is neither a start nor an end marker, stripped on the right and
  mapped by \<open>map_fn\<close> when one is given. No marker line is in the result.
\<close>

lemma capture_textfile_area_lines:
  "capture_textfile_area ls s e m =
     map (captured_line m)
       (nths ls {i. is_capturing_at ls s e i \<and> strip (ls ! i) \<noteq> s \<and> strip (ls ! i) \<noteq> e})"
  by (simp add: capture_textfile_area_def capture_loop_nths)

text \<open>
  After a start marker that no end marker follows, the result ends with all the lines up
  to the end of the input, further start markers left out.
\<close>

lemma capture_textfile_area_open_region:
  assumes "j < length ls" and "strip (ls ! j) = s"
    and "\<forall>l \<in> set (drop (Suc j) ls). strip l \<noteq> e"
  shows "suffix (map (captured_line m) (filter (\<lambda>l. strip l \<noteq> s) (drop (Suc j) ls)))
           (capture_textfile_area ls s e m)"
proof -
  from assms(1) have split: "ls = take j ls @ ls ! j # drop (Suc j) ls"
    by (simp add: id_take_nth_drop)
  from assms(2) obtain acc' where
    "capture_loop s e m False [] (take j ls @ ls ! j # drop (Suc j) ls)
       = capture_loop s e m True acc' (drop (Suc j) ls)"
    using capture_loop_reaches_start [of "ls ! j" s e m False "[]" "take j ls" "drop (Suc j) ls"]
    by blast
  with split have "capture_textfile_area ls s e m = capture_loop s e m True acc' (drop (Suc j) ls)"
    by (simp add: capture_textfile_area_def)
  also from assms(3)
  have "\<dots> = acc' @ map (captured_line m) (filter (\<lambda>l. strip l \<noteq> s) (drop (Suc j) ls))"
    by (intro capture_loop_open) simp
  finally show ?thesis
    by (simp add: suffix_def)
qed

text \<open>
  With two different markers: the example of the specification, and a file whose lines
  end with a newline and whose marker lines carry white space.
\<close>

lemma capture_textfile_area_examples:
  "capture_textfile_area [''a'', ''START'', ''b'', ''c'', ''END'', ''d''] ''START'' ''END'' None
     = [''b'', ''c'']"
  "capture_textfile_area
     [''a\<newline>'', ''  START \<newline>'', '' bx  \<newline>'', ''START x\<newline>'', ''END\<newline>'', ''d\<newline>'', ''START\<newline>'', ''e\<newline>'']
     ''START'' ''END'' (Some rev) = [''xb '', ''x TRATS'', ''e'']"
  by code_simp+


subsection \<open>The application manifest\<close>

text \<open>
  What \<open>get_app_manifest\<close> does on the shapes it accepts and on the values that are neither
  an object nor an array, and how it passes on the failures of the two calls before.
\<close>

lemma get_app_manifest_shapes:
  assumes "require_env env ''VELOCITAS_APP_MANIFEST'' = Inr var"
  shows "json_loads var = Inl err \<Longrightarrow> get_app_manifest json_loads env = Inl err"
    and "json_loads var = Inr (JObject kvs) \<Longrightarrow> get_app_manifest json_loads env = Inr (JObject kvs)"
    and "json_loads var = Inr (JArray (JObject kvs # rest)) \<Longrightarrow>
           get_app_manifest json_loads env = Inr (JObject kvs)"
    and "json_loads var = Inr (JArray (first # rest)) \<Longrightarrow> \<not> is_dict first \<Longrightarrow>
           get_app_manifest json_loads env = Inl (TypeError ''Manifest must be a dict or array!'')"
    and "json_loads var = Inr (JString x) \<Longrightarrow>
           get_app_manifest json_loads env = Inl (TypeError ''Manifest must be a dict or array!'')"
  using assms by (simp_all add: get_app_manifest_def)

lemma get_app_manifest_unset:
  "require_env env ''VELOCITAS_APP_MANIFEST'' = Inl err \<Longrightarrow> get_app_manifest json_loads env = Inl err"
  by (simp add: get_app_manifest_def)

text \<open>
  Claim C1 at the empty array. When the variable decodes to \<^verbatim>\<open>[]\<close>, the function fails
  with \<open>IndexError\<close>, not with the \<open>TypeError\<close> of its last branch: the test of the first
  element indexes the empty list.
\<close>

theorem get_app_manifest_empty_array:
  assumes "require_env env ''VELOCITAS_APP_MANIFEST'' = Inr var"
    and "json_loads var = Inr (JArray [])"
  shows "get_app_manifest json_loads env = Inl IndexError"
  using assms by (simp add: get_app_manifest_def)

theorem get_app_manifest_empty_array_witness:
  "require_env [''VELOCITAS_APP_MANIFEST'' \<mapsto> ''[]''] ''VELOCITAS_APP_MANIFEST'' = Inr ''[]''
   \<and> get_app_manifest (\<lambda>text. Inr (JArray [])) [''VELOCITAS_APP_MANIFEST'' \<mapsto> ''[]'']
       = (Inl IndexError :: py_error + unit json)
   \<and> Inl IndexError \<noteq> (Inl (TypeError ''Manifest must be a dict or array!'') :: py_error + unit json)"
proof -
  have set: "require_env [''VELOCITAS_APP_MANIFEST'' \<mapsto> ''[]''] ''VELOCITAS_APP_MANIFEST'' = Inr ''[]''"
    by (simp add: require_env_def)
  have dec: "(\<lambda>text :: string. Inr (JArray []) :: py_error + unit json) ''[]'' = Inr (JArray [])"
    by simp
  from get_app_manifest_empty_array [OF set dec] set show ?thesis
    by simp
qed

subsection \<open>The log file name\<close>

text \<open>
  Claim C8, as stated, fails: a runtime id that starts with \<^verbatim>\<open>/\<close> is an absolute path
  to \<^verbatim>\<open>os.path.join\<close>, which then drops the workspace directory and \<^verbatim>\<open>logs\<close>.
\<close>

theorem get_log_file_name_absolute_runtime:
  "get_log_file_name [''VELOCITAS_WORKSPACE_DIR'' \<mapsto> ''/ws''] ''svc'' ''/rt'' = Inr ''/rt/svc.log''
   \<and> \<not> prefix ''/ws'' ''/rt/svc.log''
   \<and> get_log_file_name [''VELOCITAS_WORKSPACE_DIR'' \<mapsto> ''/ws''] ''svc'' ''/rt''
       \<noteq> Inr (''/ws'' @ ''/logs/'' @ ''/rt'' @ ''/'' @ ''svc'' @ ''.log'')"
  by (simp add: get_log_file_name_def get_workspace_dir_def require_env_def path_join_def
      join_step_def suffix_def)

text \<open>
  Claim C8, amended. When the workspace accessor returns \<open>ws\<close>, the service id and the
  runtime id do not start with \<^verbatim>\<open>/\<close>, the runtime id is not empty and neither it nor
  \<open>ws\<close> ends with \<^verbatim>\<open>/\<close>, the log file name is \<open>ws\<close>, \<^verbatim>\<open>/logs/\<close>, the runtime id,
  \<^verbatim>\<open>/\<close>, the service id and \<^verbatim>\<open>.log\<close>, in this order. When the accessor fails, so does
  \<open>get_log_file_name\<close>, with the same error. With the workspace \<^verbatim>\<open>/ws\<close>, the ids
  \<^verbatim>\<open>svc\<close> and \<^verbatim>\<open>rt\<close> give \<^verbatim>\<open>/ws/logs/rt/svc.log\<close>.
\<close>

theorem get_log_file_name_path:
  "(get_workspace_dir env = Inr ws \<and> \<not> suffix ''/'' ws
      \<and> \<not> prefix ''/'' runtime_id \<and> runtime_id \<noteq> [] \<and> \<not> suffix ''/'' runtime_id
      \<and> \<not> prefix ''/'' service_id
      \<longrightarrow> get_log_file_name env service_id runtime_id
            = Inr (ws @ ''/logs/'' @ runtime_id @ ''/'' @ service_id @ ''.log''))
   \<and> (get_workspace_dir env = Inl err \<longrightarrow> get_log_file_name env service_id runtime_id = Inl err)
   \<and> get_log_file_name [''VELOCITAS_WORKSPACE_DIR'' \<mapsto> ''/ws''] ''svc'' ''rt''
       = Inr ''/ws/logs/rt/svc.log''"
proof (intro conjI impI)
  assume h: "get_workspace_dir env = Inr ws \<and> \<not> suffix ''/'' ws
      \<and> \<not> prefix ''/'' runtime_id \<and> runtime_id \<noteq> [] \<and> \<not> suffix ''/'' runtime_id
      \<and> \<not> prefix ''/'' service_id"
  then have "ws \<noteq> []"
    by (auto simp: get_workspace_dir_def require_env_def split: option.splits if_splits)
  with h have 1: "join_step ws ''logs'' = ws @ ''/logs''"
    by (simp add: join_step_def)
  have "\<not> suffix ''/'' (ws @ ''/logs'')"
    by (simp add: suffix_def)
  with h have 2: "join_step (ws @ ''/logs'') runtime_id = ws @ ''/logs/'' @ runtime_id"
    by (simp add: join_step_def)
  from h have "\<not> suffix ''/'' (ws @ ''/logs/'' @ runtime_id)"
    by (auto simp: suffix_def append_eq_append_conv2 Cons_eq_append_conv append_eq_Cons_conv)
  moreover from h have "\<not> prefix ''/'' (service_id @ ''.log'')"
    by (cases service_id) simp_all
  ultimately have 3: "join_step (ws @ ''/logs/'' @ runtime_id) (service_id @ ''.log'')
      = ws @ ''/logs/'' @ runtime_id @ ''/'' @ service_id @ ''.log''"
    by (simp add: join_step_def)
  from h 1 2 3 show "get_log_file_name env service_id runtime_id
      = Inr (ws @ ''/logs/'' @ runtime_id @ ''/'' @ service_id @ ''.log'')"
    by (simp add: get_log_file_name_def path_join_def)
next
  show "get_log_file_name env service_id runtime_id = Inl err" if "get_workspace_dir env = Inl err"
    using that by (simp add: get_log_file_name_def)
next
  show "get_log_file_name [''VELOCITAS_WORKSPACE_DIR'' \<mapsto> ''/ws''] ''svc'' ''rt''
       = Inr ''/ws/logs/rt/svc.log''"
    by (simp add: get_log_file_name_def get_workspace_dir_def require_env_def path_join_def
        join_step_def suffix_def)
qed

theorem get_log_file_name_path_witness:
  "get_workspace_dir [''VELOCITAS_WORKSPACE_DIR'' \<mapsto> ''/home/dev''] = Inr ''/home/dev''
   \<and> get_log_file_name [''VELOCITAS_WORKSPACE_DIR'' \<mapsto> ''/home/dev''] ''mqtt'' ''local''
       = Inr ''/home/dev/logs/local/mqtt.log''
   \<and> get_workspace_dir Map.empty = Inl (EnvNotSet ''VELOCITAS_WORKSPACE_DIR'')
   \<and> get_log_file_name Map.empty ''mqtt'' ''local'' = Inl (EnvNotSet ''VELOCITAS_WORKSPACE_DIR'')"
proof -
  let ?env = "[''VELOCITAS_WORKSPACE_DIR'' \<mapsto> ''/home/dev'']"
  have ws: "get_workspace_dir ?env = Inr ''/home/dev''"
    by (simp add: get_workspace_dir_def require_env_def)
  have shape: "\<not> suffix ''/'' ''/home/dev'' \<and> \<not> prefix ''/'' ''local'' \<and> ''local'' \<noteq> []
      \<and> \<not> suffix ''/'' ''local'' \<and> \<not> prefix ''/'' ''mqtt''"
    by (simp add: suffix_def)
  have unset: "get_workspace_dir Map.empty = Inl (EnvNotSet ''VELOCITAS_WORKSPACE_DIR'')"
    by (simp add: get_workspace_dir_def require_env_def)
  from ws shape get_log_file_name_path [of ?env "''/home/dev''" "''local''" "''mqtt''"]
  have 1: "get_log_file_name ?env ''mqtt'' ''local''
      = Inr (''/home/dev'' @ ''/logs/'' @ ''local'' @ ''/'' @ ''mqtt'' @ ''.log'')"
    by blast
  from unset get_log_file_name_path [of Map.empty _ _ _ "EnvNotSet ''VELOCITAS_WORKSPACE_DIR''"]
  have 2: "get_log_file_name Map.empty ''mqtt'' ''local'' = Inl (EnvNotSet ''VELOCITAS_WORKSPACE_DIR'')"
    by blast
  from ws unset 1 2 show ?thesis
    by simp
qed

subsection \<open>Replacing text in a file\<close>





lemma universal_newlines_no_cr: "CHR 0x0D \<notin> set (universal_newlines t)"
  by (induction t rule: universal_newlines.induct) auto








subsection \<open>Downloading a file\<close>

text \<open>The chunks make up the body.\<close>

lemma concat_iter_slices: "concat (iter_slices string n) = string"
  by (induction string n rule: iter_slices.induct) (subst iter_slices.simps, simp)

lemma path_split_bare: "CHR ''/'' \<notin> set p \<Longrightarrow> path_split p = ([], p)"
proof -
  assume "CHR ''/'' \<notin> set p"
  then have all: "\<forall>c \<in> set (rev p). c \<noteq> CHR ''/''"
    by auto
  from all have "takeWhile (\<lambda>c. c \<noteq> CHR ''/'') (rev p) = rev p"
    by (rule takeWhile_eq_all_conv [THEN iffD2])
  then have "rev (takeWhile (\<lambda>c. c \<noteq> CHR ''/'') (rev p)) = rev (rev p)"
    by (rule arg_cong)
  then have tail: "rev (takeWhile (\<lambda>c. c \<noteq> CHR ''/'') (rev p)) = p"
    by (simp only: rev_rev_ident)
  from all have "dropWhile (\<lambda>c. c \<noteq> CHR ''/'') (rev p) = []"
    by (rule dropWhile_eq_Nil_conv [THEN iffD2])
  then have "rev (dropWhile (\<lambda>c. c \<noteq> CHR ''/'') (rev p)) = rev []"
    by (rule arg_cong)
  then have head: "rev (dropWhile (\<lambda>c. c \<noteq> CHR ''/'') (rev p)) = []"
    by (simp only: rev.simps)
  show ?thesis
    by (simp add: path_split_def tail head)
qed

lemma foldl_file_write:
  "files fs path = Some written \<Longrightarrow>
   foldl (\<lambda>fs' chunk. file_write path chunk fs') fs chunks
     = fs\<lparr>files := (files fs)(path \<mapsto> written @ concat chunks)\<rparr>"
proof (induction chunks arbitrary: fs written)
  case Nil
  then show ?case by (simp add: fun_upd_idem)
next
  case (Cons chunk chunks)
  have step: "file_write path chunk fs = fs\<lparr>files := (files fs)(path \<mapsto> written @ chunk)\<rparr>"
    using Cons.prems by (simp add: file_write_def)
  have "foldl (\<lambda>fs' chunk. file_write path chunk fs') fs (chunk # chunks)
      = foldl (\<lambda>fs' chunk. file_write path chunk fs') (file_write path chunk fs) chunks"
    by simp
  also have "\<dots> = (file_write path chunk fs)\<lparr>files :=
      (files (file_write path chunk fs))(path \<mapsto> (written @ chunk) @ concat chunks)\<rparr>"
    by (rule Cons.IH) (simp add: step)
  also have "\<dots> = fs\<lparr>files := (files fs)(path \<mapsto> written @ concat (chunk # chunks))\<rparr>"
    unfolding step by simp
  finally show ?case .
qed

text \<open>
  Where the directory of the local path can be made and the file opened, the download
  leaves the body of the response in the file, and the directory exists.
\<close>

lemma download_file_writes_body:
  assumes "http_get uri = Inr content"
    and "makedirs (fst (path_split local_file_path)) fs = Inr fs1"
    and "open_wb local_file_path fs1 = Inr fs2"
  shows "download_file http_get fs uri local_file_path
           = (None, fs1\<lparr>files := (files fs1)(local_file_path \<mapsto> content)\<rparr>)"
    and "fst (path_split local_file_path) \<in> dirs fs1"
proof -
  from assms(3) have fs2: "fs2 = fs1\<lparr>files := (files fs1)(local_file_path \<mapsto> [])\<rparr>"
    by (auto simp: open_wb_def Let_def split: if_splits)
  then have "files fs2 local_file_path = Some []" by simp
  then have "foldl (\<lambda>fs' chunk. file_write local_file_path chunk fs') fs2 (iter_slices content 8192)
      = fs2\<lparr>files := (files fs2)(local_file_path \<mapsto> [] @ concat (iter_slices content 8192))\<rparr>"
    by (rule foldl_file_write)
  with assms fs2 show "download_file http_get fs uri local_file_path
           = (None, fs1\<lparr>files := (files fs1)(local_file_path \<mapsto> content)\<rparr>)"
    by (simp add: download_file_def concat_iter_slices)
  from assms(2) show "fst (path_split local_file_path) \<in> dirs fs1"
    by (auto simp: makedirs_def split: if_splits)
qed

lemma download_file_example:
  "download_file (\<lambda>uri. Inr ''body'') \<lparr>dirs = {}, files = Map.empty\<rparr> ''http://host/x'' ''out/x.bin''
     = (None, \<lparr>dirs = {''out''}, files = [''out/x.bin'' \<mapsto> ''body'']\<rparr>)"
  by (simp add: download_file_def path_split_def makedirs_def ancestors_def open_wb_def
      foldl_file_write concat_iter_slices)

text \<open>
  Claim C10 at a local path without a directory part. For such a path
  \<^verbatim>\<open>os.path.split\<close> gives the empty directory name, on which \<^verbatim>\<open>os.makedirs\<close> raises
  \<open>FileNotFoundError\<close>: after a successful response the download fails, and no file is
  written.
\<close>

theorem download_file_bare_name:
  assumes "http_get uri = Inr content" and "CHR ''/'' \<notin> set local_file_path"
  shows "download_file http_get fs uri local_file_path = (Some (FileNotFoundError []), fs)"
  using assms by (simp add: download_file_def path_split_bare makedirs_def)

theorem download_file_bare_name_witness:
  "download_file (\<lambda>uri. Inr ''body'') \<lparr>dirs = {}, files = Map.empty\<rparr> ''http://host/x'' ''out.bin''
     = (Some (FileNotFoundError ''''), \<lparr>dirs = {}, files = Map.empty\<rparr>)
   \<and> files (snd (download_file (\<lambda>uri. Inr ''body'') \<lparr>dirs = {}, files = Map.empty\<rparr>
        ''http://host/x'' ''out.bin'')) ''out.bin'' = None"
proof -
  have "download_file (\<lambda>uri. Inr ''body'') \<lparr>dirs = {}, files = Map.empty\<rparr> ''http://host/x'' ''out.bin''
      = (Some (FileNotFoundError []), \<lparr>dirs = {}, files = Map.empty\<rparr>)"
    by (rule download_file_bare_name [where content = "''body''"]) simp_all
  then show ?thesis
    by simp
qed

end
